theory Spec2Isabelle
  imports
    Complex_Main
    "HOL-Library.Char_ord"
    "HOL-Library.List_Lexorder"
    "HOL-Library.Product_Lexorder"
    "HOL-Library.Sublist"
    "HOL-Library.Word"
begin

section \<open>Errors\<close>

text \<open>
  Every exception the pipeline raises is a value. \<open>KeyError\<close> carries the labels
  pandas reports as missing; \<open>ValueError\<close>, \<open>TypeError\<close> and
  \<open>FileNotFoundError\<close> carry their message. \<open>HTTPError\<close>,
  \<open>ConnectionError\<close> and \<open>Timeout\<close> are the transport failures that
  \<open>fetch_breweries\<close> logs and re-raises; \<open>ArrowInvalid\<close> is what reading a
  file that is not Parquet raises.
\<close>

datatype error =
    HTTPError
  | ConnectionError
  | Timeout
  | ValueError string
  | KeyError "string list"
  | TypeError string
  | FileNotFoundError string
  | ArrowInvalid

section \<open>Bronze: pagination (src/bronze/ingest\_api.py)\<close>

text \<open>
  The remote API is the environment: a function from the page index to what one request
  for that page yields, a transport error or the parsed list. The list of page indices
  requested so far is threaded as state, so that the number and order of requests can be
  stated.
\<close>

definition fetch_breweries ::
  "(nat \<Rightarrow> error + 'r list) \<Rightarrow> nat \<Rightarrow> nat list \<Rightarrow> (error + 'r list) \<times> nat list" where
  "fetch_breweries api page calls = (api page, calls @ [page])"

text \<open>
  The body of \<open>while True\<close> in \<open>fetch_all_breweries\<close>. The source puts no bound
  on the number of pages, so the loop is a partial function: \<open>None\<close> is a run that
  never leaves the loop.
\<close>

partial_function (option) fetch_loop ::
  "(nat \<Rightarrow> error + 'r list) \<Rightarrow> 'r list \<Rightarrow> nat \<Rightarrow> nat list
     \<Rightarrow> ((error + 'r list) \<times> nat list) option" where
  "fetch_loop api all_breweries page calls =
     (case fetch_breweries api page calls of
        (Inl e, calls') \<Rightarrow> Some (Inl e, calls')
      | (Inr data, calls') \<Rightarrow>
          if data = [] then Some (Inr all_breweries, calls')
          else fetch_loop api (all_breweries @ data) (page + 1) calls')"

definition fetch_all_breweries ::
  "(nat \<Rightarrow> error + 'r list) \<Rightarrow> nat list \<Rightarrow> ((error + 'r list) \<times> nat list) option" where
  "fetch_all_breweries api calls = fetch_loop api [] 1 calls"

text \<open>
  \<open>save_to_bronze\<close> writes the records to a file whose name carries the timestamp
  of the call and returns the path. The bronze directory is a map from paths to file
  contents; the clock reading \<open>timestamp\<close> is an argument. The function has no
  check on \<open>data\<close>.
\<close>

definition BRONZE_PATH :: string where
  "BRONZE_PATH = ''/opt/airflow/data/bronze''"

definition save_to_bronze ::
  "'r list \<Rightarrow> string \<Rightarrow> (string \<rightharpoonup> 'r list) \<Rightarrow> string \<times> (string \<rightharpoonup> 'r list)" where
  "save_to_bronze data timestamp fs =
     (let filepath = BRONZE_PATH @ ''/'' @ ''breweries_raw_'' @ timestamp @ ''.json''
      in (filepath, fs(filepath \<mapsto> data)))"

text \<open>
  \<open>ingest_breweries\<close>: fetch everything, refuse an empty result, save. An exception
  leaves the directory as it was.
\<close>

definition ingest_breweries ::
  "(nat \<Rightarrow> error + 'r list) \<Rightarrow> string \<Rightarrow> (string \<rightharpoonup> 'r list)
     \<Rightarrow> ((error + string) \<times> (string \<rightharpoonup> 'r list)) option" where
  "ingest_breweries api timestamp fs =
     (case fetch_all_breweries api [] of
        None \<Rightarrow> None
      | Some (Inl e, calls) \<Rightarrow> Some (Inl e, fs)
      | Some (Inr data, calls) \<Rightarrow>
          if data = [] then
            Some (Inl (ValueError ''No data fetched from API. Aborting ingestion.''), fs)
          else
            (let (filepath, fs') = save_to_bronze data timestamp fs
             in Some (Inr filepath, fs')))"

section \<open>Data frames\<close>

text \<open>
  A cell of a frame is null (Python's \<open>None\<close> and the float \<open>NaN\<close>, which
  \<open>isnull\<close>, \<open>dropna\<close>, \<open>fillna\<close> and \<open>count\<close> treat alike), a
  string or a number. A number is the value of an \<open>int\<close> or of a \<open>float\<close>: a
  rational or one of the two infinities. A raw record is a JSON object: its fields in
  the order in which they were parsed. A frame is pandas' positional table: the column
  labels, which need not be distinct, and the rows, each as long as the labels.
\<close>

datatype number = Finite rat | PosInf | NegInf

datatype cell = Null | Str string | Num number

type_synonym raw_record = "(string \<times> cell) list"

record dataframe =
  columns :: "string list"
  rows :: "cell list list"

text \<open>\<open>d.get(k)\<close>: a field a record does not carry is null in the frame.\<close>

definition get_field :: "raw_record \<Rightarrow> string \<Rightarrow> cell" where
  "get_field d k = (case map_of d k of None \<Rightarrow> Null | Some v \<Rightarrow> v)"

text \<open>The labels of \<open>pd.DataFrame(data)\<close>: all keys, in order of first appearance.\<close>

fun unique_list :: "'a list \<Rightarrow> 'a list \<Rightarrow> 'a list" where
  "unique_list seen [] = []"
| "unique_list seen (k # ks) =
     (if k \<in> set seen then unique_list seen ks else k # unique_list (seen @ [k]) ks)"

definition DataFrame :: "raw_record list \<Rightarrow> dataframe" where
  "DataFrame data =
     (let cols = unique_list [] (concat (map (map fst) data))
      in \<lparr>columns = cols, rows = map (\<lambda>d. map (get_field d) cols) data\<rparr>)"

text \<open>\<open>df.empty\<close>: some axis has length 0.\<close>

definition df_empty :: "dataframe \<Rightarrow> bool" where
  "df_empty df = (columns df = [] \<or> rows df = [])"

text \<open>\<open>label in df.columns\<close>.\<close>

definition has_column :: "dataframe \<Rightarrow> string \<Rightarrow> bool" where
  "has_column df label = (label \<in> set (columns df))"

text \<open>The cells of one row under a label (one cell when the label is unique).\<close>

definition cells_at :: "string list \<Rightarrow> cell list \<Rightarrow> string \<Rightarrow> cell list" where
  "cells_at cols row label = map snd (filter (\<lambda>(l, c). l = label) (zip cols row))"

text \<open>
  \<open>df.dropna(subset=...)\<close>: a \<open>KeyError\<close> naming the labels of \<open>subset\<close> that
  the frame lacks; otherwise the rows with no null under any label of \<open>subset\<close>.
\<close>

definition dropna :: "string list \<Rightarrow> dataframe \<Rightarrow> error + dataframe" where
  "dropna labels df =
     (let missing = filter (\<lambda>l. \<not> has_column df l) labels
      in if missing \<noteq> [] then Inl (KeyError missing)
         else Inr (df\<lparr>rows :=
                filter (\<lambda>row. list_all (\<lambda>l. Null \<notin> set (cells_at (columns df) row l)) labels)
                  (rows df)\<rparr>))"

text \<open>
  \<open>df[label] = f(df[label])\<close> for a cell-wise \<open>f\<close>: every cell under the
  label is replaced, the rest of the row stays.
\<close>

fun map_labelled :: "(string \<Rightarrow> cell \<Rightarrow> cell) \<Rightarrow> string list \<Rightarrow> cell list \<Rightarrow> cell list" where
  "map_labelled f (l # ls) (c # cs) = f l c # map_labelled f ls cs"
| "map_labelled f ls cs = cs"

definition map_column :: "string \<Rightarrow> (cell \<Rightarrow> cell) \<Rightarrow> dataframe \<Rightarrow> dataframe" where
  "map_column label f df =
     df\<lparr>rows := map (map_labelled (\<lambda>l c. if l = label then f c else c) (columns df))
                   (rows df)\<rparr>"

definition fillna :: "cell \<Rightarrow> cell \<Rightarrow> cell" where
  "fillna v c = (if c = Null then v else c)"

text \<open>
  \<open>pd.to_numeric(..., errors="coerce")\<close> on one cell. The grammar of numbers that
  pandas reads from a string is the parameter \<open>parse\<close>: \<open>None\<close> for a string that
  is not a number (or that spells \<open>NaN\<close>), the number otherwise.
\<close>

definition to_numeric :: "(string \<Rightarrow> number option) \<Rightarrow> cell \<Rightarrow> cell" where
  "to_numeric parse c =
     (case c of
        Null \<Rightarrow> Null
      | Num x \<Rightarrow> Num x
      | Str s \<Rightarrow> (case parse s of None \<Rightarrow> Null | Some x \<Rightarrow> Num x))"

section \<open>Silver: cleaning (src/silver/transform.py)\<close>

text \<open>
  \<open>c.lower().strip()\<close> on a label. A \<open>char\<close> is a code point below 256, and on
  these the two functions are Python's: \<open>lower\<close> maps \<open>A\<close> to \<open>Z\<close> and the
  upper-case letters \<open>0xC0\<close> to \<open>0xDE\<close> (all but the sign \<open>0xD7\<close>) to the
  code point 32 above, and \<open>strip\<close> removes from both ends the code points for
  which \<open>str.isspace\<close> holds. A label with a code point from 256 on has no
  counterpart in the model.
\<close>

definition lower_char :: "char \<Rightarrow> char" where
  "lower_char c =
     (let n = (of_char c :: nat)
      in if (65 \<le> n \<and> n \<le> 90) \<or> (192 \<le> n \<and> n \<le> 222 \<and> n \<noteq> 215)
         then char_of (n + 32) else c)"

definition str_lower :: "string \<Rightarrow> string" where
  "str_lower s = map lower_char s"

definition isspace :: "char \<Rightarrow> bool" where
  "isspace c = (c \<in> set [CHR '' '', CHR 0x09, CHR 0x0A, CHR 0x0B, CHR 0x0C, CHR 0x0D,
                          CHR 0x1C, CHR 0x1D, CHR 0x1E, CHR 0x1F, CHR 0x85, CHR 0xA0])"

definition str_strip :: "string \<Rightarrow> string" where
  "str_strip s = rev (dropWhile isspace (rev (dropWhile isspace s)))"

definition str_cols :: "string list" where
  "str_cols = [''city'', ''country'', ''state_province'', ''postal_code'', ''phone'',
               ''website_url'', ''address_1'', ''address_2'', ''address_3'']"

text \<open>One turn of the loop over \<open>str_cols\<close>.\<close>

definition fill_unknown :: "string \<Rightarrow> dataframe \<Rightarrow> dataframe" where
  "fill_unknown col df =
     (if has_column df col then map_column col (fillna (Str ''unknown'')) df else df)"

text \<open>
  One turn of the loop over the coordinates. Where two columns carry the label,
  \<open>df[coord]\<close> is a frame and \<open>pd.to_numeric\<close> raises.
\<close>

definition cast_coord ::
  "(string \<Rightarrow> number option) \<Rightarrow> string \<Rightarrow> dataframe \<Rightarrow> error + dataframe" where
  "cast_coord parse coord df =
     (if has_column df coord then
        if 1 < count_list (columns df) coord then
          Inl (TypeError ''arg must be a list, tuple, 1-d array, or Series'')
        else Inr (map_column coord (to_numeric parse) df)
      else Inr df)"

text \<open>
  \<open>clean_and_transform\<close>, statement by statement. The warnings and the closing log
  line are not modelled.
\<close>

definition clean_and_transform ::
  "(string \<Rightarrow> number option) \<Rightarrow> raw_record list \<Rightarrow> error + dataframe" where
  "clean_and_transform parse data =
     (let df = DataFrame data in
      if df_empty df then Inr df
      else
        let df = df\<lparr>columns := map (\<lambda>c. str_strip (str_lower c)) (columns df)\<rparr> in
        case dropna [''brewery_type'', ''state''] df of
          Inl e \<Rightarrow> Inl e
        | Inr df \<Rightarrow>
            let df = fold fill_unknown str_cols df in
            case cast_coord parse ''latitude'' df of
              Inl e \<Rightarrow> Inl e
            | Inr df \<Rightarrow> cast_coord parse ''longitude'' df)"


text \<open>The labels of the frame that \<open>clean_and_transform\<close> works on.\<close>

definition clean_columns :: "raw_record list \<Rightarrow> string list" where
  "clean_columns data = map (\<lambda>c. str_strip (str_lower c)) (columns (DataFrame data))"

text \<open>The row that \<open>pd.DataFrame(data)\<close> holds for the record \<open>d\<close>.\<close>

definition row_of :: "raw_record list \<Rightarrow> raw_record \<Rightarrow> cell list" where
  "row_of data d = map (get_field d) (columns (DataFrame data))"




text \<open>
  An instance of the number grammar for the examples: the coordinates of the test data
  (tests/test\_transform.py); every other string is not a number.
\<close>

definition test_parse :: "string \<Rightarrow> number option" where
  "test_parse = map_of [(''34.05'', Finite (681 / 20)), (''-118.24'', Finite (- 2956 / 25)),
                        (''30.26'', Finite (1513 / 50)), (''-97.74'', Finite (- 4887 / 50))]"


section \<open>Gold: aggregation (src/gold/aggregate.py)\<close>

text \<open>
  \<open>row[label]\<close>, the cell of a row under a label (the first column that carries it;
  frames read from Parquet have distinct labels).
\<close>

definition cell_at :: "string list \<Rightarrow> cell list \<Rightarrow> string \<Rightarrow> cell" where
  "cell_at cols row label = (case cells_at cols row label of [] \<Rightarrow> Null | c # _ \<Rightarrow> c)"

text \<open>
  The order in which pandas sorts the values of a key column: numbers by value before
  strings, strings by code point.
\<close>

definition number_key :: "number \<Rightarrow> nat \<times> rat" where
  "number_key x = (case x of NegInf \<Rightarrow> (0, 0) | Finite q \<Rightarrow> (1, q) | PosInf \<Rightarrow> (2, 0))"

definition cell_key :: "cell \<Rightarrow> nat \<times> (nat \<times> rat) \<times> string" where
  "cell_key c =
     (case c of
        Num x \<Rightarrow> (0, number_key x, [])
      | Str s \<Rightarrow> (1, (0, 0), s)
      | Null \<Rightarrow> (2, (0, 0), []))"

text \<open>
  \<open>df.groupby(keys, as_index=False, observed=True)\<close> with the defaults
  \<open>sort=True\<close> and \<open>dropna=True\<close>: a row with a null key belongs to no group; the
  groups are those of the key tuples that occur, in sorted order, each with its rows.
\<close>

definition groupby ::
  "string list \<Rightarrow> dataframe \<Rightarrow> error + (cell list \<times> cell list list) list" where
  "groupby keys df =
     (case filter (\<lambda>k. \<not> has_column df k) keys of
        k # _ \<Rightarrow> Inl (KeyError [k])
      | [] \<Rightarrow>
          (case filter (\<lambda>k. 1 < count_list (columns df) k) keys of
             k # _ \<Rightarrow>
               Inl (ValueError (''Grouper for '' @ [CHR 0x27] @ k @ [CHR 0x27] @
                                '' not 1-dimensional''))
           | [] \<Rightarrow>
               let key_of = (\<lambda>row. map (cell_at (columns df) row) keys);
                   kept = filter (\<lambda>row. Null \<notin> set (key_of row)) (rows df);
                   ks = sort_key (map cell_key) (remdups (map key_of kept))
               in Inr (map (\<lambda>k. (k, filter (\<lambda>row. key_of row = k) kept)) ks)))"

text \<open>
  \<open>.agg(out=(col, "count"))\<close>: one row per group, the key cells followed by the
  number of the group's rows whose \<open>col\<close> is not null.
\<close>

definition agg_count ::
  "string \<Rightarrow> string \<Rightarrow> string list \<Rightarrow> dataframe \<Rightarrow> (cell list \<times> cell list list) list
     \<Rightarrow> error + dataframe" where
  "agg_count out col keys df groups =
     (if \<not> has_column df col then Inl (KeyError [col])
      else Inr \<lparr>columns = keys @ [out],
                rows = map (\<lambda>(k, members).
                         k @ [Num (Finite (of_nat (length
                                (filter (\<lambda>row. cell_at (columns df) row col \<noteq> Null)
                                   members))))])
                       groups\<rparr>)"

text \<open>\<open>.sort_values(by)\<close>, ascending and stable.\<close>

definition sort_values :: "string list \<Rightarrow> dataframe \<Rightarrow> error + dataframe" where
  "sort_values by df =
     (case filter (\<lambda>k. \<not> has_column df k) by of
        k # _ \<Rightarrow> Inl (KeyError [k])
      | [] \<Rightarrow>
          Inr (df\<lparr>rows :=
                 sort_key (\<lambda>row. map (\<lambda>l. cell_key (cell_at (columns df) row l)) by)
                   (rows df)\<rparr>))"

text \<open>The key of a row: its cells under the three grouping labels.\<close>

definition group_key :: "dataframe \<Rightarrow> cell list \<Rightarrow> cell list" where
  "group_key df row = map (cell_at (columns df) row) [''brewery_type'', ''country'', ''state'']"

definition aggregate_breweries :: "dataframe \<Rightarrow> error + dataframe" where
  "aggregate_breweries df =
     (if df_empty df then Inl (ValueError ''Input DataFrame is empty. Cannot aggregate.'')
      else
        case groupby [''brewery_type'', ''country'', ''state''] df of
          Inl e \<Rightarrow> Inl e
        | Inr groups \<Rightarrow>
            (case agg_count ''brewery_count'' ''id''
                    [''brewery_type'', ''country'', ''state''] df groups of
               Inl e \<Rightarrow> Inl e
             | Inr agg \<Rightarrow> sort_values [''country'', ''state'', ''brewery_type''] agg))"

text \<open>
  The sum of the conservation property: the numbers under a label, added up exactly.
  It is the quantity the property speaks of, not an operation of the code.
\<close>

definition count_total :: "dataframe \<Rightarrow> string \<Rightarrow> rat" where
  "count_total df label =
     sum_list (map (\<lambda>row. case cell_at (columns df) row label of
                              Num (Finite x) \<Rightarrow> x | _ \<Rightarrow> 0)
                 (rows df))"

section \<open>Quality check (dags/brewery\_pipeline.py)\<close>















section \<open>Pagination: results\<close>

lemma fetch_loop_run:
  assumes "pages (p + n) = []"
    and "\<forall>i. p \<le> i \<and> i < p + n \<longrightarrow> pages i \<noteq> []"
  shows "fetch_loop (\<lambda>i. Inr (pages i)) acc p calls =
           Some (Inr (acc @ concat (map pages [p..<p + n])), calls @ [p..<Suc (p + n)])"
  using assms
proof (induction n arbitrary: p acc calls)
  case 0
  then show ?case
    by (subst fetch_loop.simps) (simp add: fetch_breweries_def)
next
  case (Suc n)
  from Suc.prems have ne: "pages p \<noteq> []" by simp
  have u1: "[p..<p + Suc n] = p # [Suc p..<Suc p + n]"
    by (simp add: upt_conv_Cons del: upt_Suc)
  have u2: "[p..<Suc (p + Suc n)] = p # [Suc p..<Suc (Suc p + n)]"
    by (simp add: upt_conv_Cons del: upt_Suc)
  have step: "fetch_loop (\<lambda>i. Inr (pages i)) acc p calls =
                fetch_loop (\<lambda>i. Inr (pages i)) (acc @ pages p) (Suc p) (calls @ [p])"
    using ne by (subst fetch_loop.simps) (simp add: fetch_breweries_def)
  have "fetch_loop (\<lambda>i. Inr (pages i)) (acc @ pages p) (Suc p) (calls @ [p]) =
          Some (Inr ((acc @ pages p) @ concat (map pages [Suc p..<Suc p + n])),
                (calls @ [p]) @ [Suc p..<Suc (Suc p + n)])"
    using Suc.prems by (intro Suc.IH) auto
  then show ?case
    unfolding step u1 u2 by simp
qed

text \<open>
  C2. Let the pages be any sequence whose first empty page has index \<open>k\<close> (counting
  from 1). Then \<open>fetch_all_breweries\<close> returns: its result is the concatenation, in
  order, of the pages \<open>1, \<dots>, k - 1\<close>, and it has requested exactly the pages
  \<open>1, 2, \<dots>, k\<close>, one request more than there are non-empty pages before the
  empty one.
\<close>

theorem fetch_all_breweries_concat:
  assumes "1 \<le> k"
    and "pages k = []"
    and "\<forall>i. 1 \<le> i \<and> i < k \<longrightarrow> pages i \<noteq> []"
  shows "fetch_all_breweries (\<lambda>i. Inr (pages i)) calls =
           Some (Inr (concat (map pages [1..<k])), calls @ [1..<Suc k])
         \<and> length [1..<Suc k] = Suc (length (map pages [1..<k]))"
proof -
  obtain n where k: "k = 1 + n"
    using assms(1) by (metis le_iff_add)
  have "fetch_loop (\<lambda>i. Inr (pages i)) [] 1 calls =
          Some (Inr ([] @ concat (map pages [1..<1 + n])), calls @ [1..<Suc (1 + n)])"
    using assms(2,3) unfolding k by (intro fetch_loop_run) auto
  then show ?thesis
    using assms(1) by (simp add: fetch_all_breweries_def k)
qed

theorem fetch_all_breweries_concat_witness:
  "fetch_all_breweries
     (\<lambda>i. Inr (if i = 1 \<or> i = 2 then [''Brew A'', ''Brew B''] else [])) [] =
   Some (Inr [''Brew A'', ''Brew B'', ''Brew A'', ''Brew B''], [1, 2, 3])"
  using fetch_all_breweries_concat
    [of 3 "\<lambda>i. if i = 1 \<or> i = 2 then [''Brew A'', ''Brew B''] else []" "[]"]
  by (simp add: upt_conv_Cons)

section \<open>Raw store: results\<close>

text \<open>
  C5, as stated, fails: \<open>save_to_bronze\<close> given no records writes a snapshot that
  holds the empty list and returns its path.
\<close>

theorem save_to_bronze_empty_counterexample:
  "save_to_bronze ([] :: raw_record list) ''20240101_000000'' Map.empty =
     (''/opt/airflow/data/bronze/breweries_raw_20240101_000000.json'',
      [''/opt/airflow/data/bronze/breweries_raw_20240101_000000.json'' \<mapsto> []])"
  by (simp add: save_to_bronze_def BRONZE_PATH_def Let_def)

text \<open>
  C5, amended. The check is in the entry point: when the first page of the API is empty,
  so that nothing is fetched, \<open>ingest_breweries\<close> fails with a \<open>ValueError\<close> and
  the bronze directory is as it was: \<open>save_to_bronze\<close> is not reached.
\<close>

theorem ingest_breweries_empty:
  assumes "api 1 = Inr []"
  shows "ingest_breweries api timestamp fs =
           Some (Inl (ValueError ''No data fetched from API. Aborting ingestion.''), fs)"
proof -
  have "fetch_all_breweries api [] = Some (Inr [], [1])"
    unfolding fetch_all_breweries_def using assms
    by (subst fetch_loop.simps) (simp add: fetch_breweries_def)
  then show ?thesis
    by (simp add: ingest_breweries_def)
qed

theorem ingest_breweries_empty_witness:
  "ingest_breweries (\<lambda>page. Inr ([] :: raw_record list)) ''20240101_000000'' Map.empty =
     Some (Inl (ValueError ''No data fetched from API. Aborting ingestion.''), Map.empty)"
  using ingest_breweries_empty
    [of "\<lambda>page. Inr ([] :: raw_record list)" "''20240101_000000''" Map.empty]
  by simp

section \<open>Cleaning: results\<close>



lemma length_map_labelled [simp]: "length (map_labelled f ls cs) = length cs"
  by (induction f ls cs rule: map_labelled.induct) simp_all








lemma columns_map_column [simp]: "columns (map_column l f df) = columns df"
  by (simp add: map_column_def)





lemma length_row_of [simp]: "length (row_of data d) = length (clean_columns data)"
  by (simp add: row_of_def clean_columns_def)









text \<open>
  C8. \<open>clean_and_transform\<close> on the empty list returns the frame with no rows and no
  columns; no exception is raised.
\<close>

theorem clean_and_transform_empty:
  "clean_and_transform parse [] = Inr \<lparr>columns = [], rows = []\<rparr>"
  by (simp add: clean_and_transform_def DataFrame_def df_empty_def)










section \<open>Aggregation: results\<close>

text \<open>
  C9. On an empty frame (no rows or no columns) \<open>aggregate_breweries\<close> raises a
  \<open>ValueError\<close> whose message contains the word "empty"; there is no frame of
  result.
\<close>

theorem aggregate_breweries_empty:
  assumes "df_empty df"
  shows "\<exists>msg. aggregate_breweries df = Inl (ValueError msg) \<and> sublist ''empty'' msg"
proof -
  have "''Input DataFrame is empty. Cannot aggregate.'' =
          ''Input DataFrame is '' @ ''empty'' @ ''. Cannot aggregate.''"
    by simp
  then have "sublist ''empty'' ''Input DataFrame is empty. Cannot aggregate.''"
    unfolding sublist_def by blast
  then show ?thesis
    using assms by (simp add: aggregate_breweries_def)
qed

theorem aggregate_breweries_empty_witness:
  "\<exists>msg. aggregate_breweries \<lparr>columns = [], rows = []\<rparr> = Inl (ValueError msg)
         \<and> sublist ''empty'' msg"
  using aggregate_breweries_empty [of "\<lparr>columns = [], rows = []\<rparr>"]
  by (simp add: df_empty_def)

text \<open>
  What \<open>aggregate_breweries\<close> computes on a frame that has rows, each grouping label
  once, an \<open>id\<close> column and no null key: a sum over a sorted list is the sum over
  the list, and the sizes of the groups add up to the number of rows.
\<close>

lemma sum_list_insort_key:
  fixes g :: "'a \<Rightarrow> 'b::comm_monoid_add"
  shows "sum_list (map g (insort_key h x xs)) = g x + sum_list (map g xs)"
  by (induction xs) (simp_all add: ac_simps)

lemma sum_list_sort_key:
  fixes g :: "'a \<Rightarrow> 'b::comm_monoid_add"
  shows "sum_list (map g (sort_key h xs)) = sum_list (map g xs)"
  by (induction xs) (simp_all add: sum_list_insort_key)

lemma sum_list_indicator:
  "distinct ks \<Longrightarrow> a \<in> set ks \<Longrightarrow>
     sum_list (map (\<lambda>k. if a = k then 1 else 0) ks) = (1::nat)"
proof (induction ks)
  case Nil then show ?case by simp
next
  case (Cons k ks)
  show ?case
  proof (cases "a = k")
    case True
    with Cons.prems have "a \<notin> set ks" by simp
    then have "sum_list (map (\<lambda>k. if a = k then 1 else 0) ks) = (0::nat)"
      by (induction ks) auto
    with True show ?thesis by simp
  next
    case False
    with Cons show ?thesis by simp
  qed
qed

lemma sum_list_group_sizes:
  assumes "distinct ks" and "f ` set ys \<subseteq> set ks"
  shows "sum_list (map (\<lambda>k. length (filter (\<lambda>r. f r = k) ys)) ks) = length ys"
  using assms(2)
proof (induction ys)
  case Nil then show ?case by simp
next
  case (Cons y ys)
  have "sum_list (map (\<lambda>k. length (filter (\<lambda>r. f r = k) (y # ys))) ks) =
        sum_list (map (\<lambda>k. (if f y = k then 1 else 0) + length (filter (\<lambda>r. f r = k) ys)) ks)"
    by (intro arg_cong[of _ _ sum_list] map_cong) auto
  also have "\<dots> = sum_list (map (\<lambda>k. if f y = k then 1 else 0) ks) +
                  sum_list (map (\<lambda>k. length (filter (\<lambda>r. f r = k) ys)) ks)"
    by (simp add: sum_list_addf)
  also have "\<dots> = 1 + length ys"
    using Cons assms(1) by (simp add: sum_list_indicator)
  finally show ?case by simp
qed


lemma sum_list_of_nat:
  "sum_list (map (\<lambda>x. (of_nat (f x) :: rat)) xs) = of_nat (sum_list (map f xs))"
  by (induction xs) simp_all

lemma groupby_keys:
  assumes "\<forall>k\<in>set keys. count_list (columns df) k = 1"
    and "\<forall>row\<in>set (rows df). Null \<notin> set (map (cell_at (columns df) row) keys)"
  shows "groupby keys df =
           Inr (map (\<lambda>k. (k, filter (\<lambda>row. map (cell_at (columns df) row) keys = k) (rows df)))
                  (sort_key (map cell_key)
                     (remdups (map (\<lambda>row. map (cell_at (columns df) row) keys) (rows df)))))"
proof -
  have 1: "filter (\<lambda>k. \<not> has_column df k) keys = []"
    using assms(1) by (auto simp: filter_empty_conv has_column_def count_list_0_iff[symmetric]
        simp del: count_list_0_iff)
  have 2: "filter (\<lambda>k. 1 < count_list (columns df) k) keys = []"
    using assms(1) by (auto simp: filter_empty_conv)
  have 3: "filter (\<lambda>row. Null \<notin> set (map (cell_at (columns df) row) keys)) (rows df) = rows df"
    using assms(2) by (simp add: filter_id_conv)
  show ?thesis
    unfolding groupby_def 1 2 list.case Let_def 3 by simp
qed


lemma aggregate_breweries_rows:
  assumes "\<not> df_empty df"
    and "\<forall>k\<in>set [''brewery_type'', ''country'', ''state'']. count_list (columns df) k = 1"
    and "has_column df ''id''"
    and "\<forall>row\<in>set (rows df). Null \<notin> set (group_key df row)"
  shows "aggregate_breweries df =
     Inr \<lparr>columns = [''brewery_type'', ''country'', ''state'', ''brewery_count''],
          rows =
            sort_key (\<lambda>row. map (\<lambda>l. cell_key
                         (cell_at [''brewery_type'', ''country'', ''state'', ''brewery_count'']
                            row l))
                       [''country'', ''state'', ''brewery_type''])
              (map (\<lambda>k. k @ [Num (Finite (of_nat (length
                       (filter (\<lambda>row. cell_at (columns df) row ''id'' \<noteq> Null)
                          (filter (\<lambda>row. group_key df row = k) (rows df))))))])
                 (sort_key (map cell_key) (remdups (map (group_key df) (rows df)))))\<rparr>"
proof -
  have g: "groupby [''brewery_type'', ''country'', ''state''] df =
      Inr (map (\<lambda>k. (k, filter (\<lambda>row. group_key df row = k) (rows df)))
             (sort_key (map cell_key) (remdups (map (group_key df) (rows df)))))"
    using groupby_keys [of "[''brewery_type'', ''country'', ''state'']" df] assms(2,4)
    unfolding group_key_def by simp
  show ?thesis
    unfolding aggregate_breweries_def g
    using assms(1,3)
    by (simp add: agg_count_def sort_values_def has_column_def comp_def)
qed

lemma aggregate_breweries_sum:
  assumes "\<not> df_empty df"
    and "\<forall>k\<in>set [''brewery_type'', ''country'', ''state'']. count_list (columns df) k = 1"
    and "has_column df ''id''"
    and "\<forall>row\<in>set (rows df). Null \<notin> set (group_key df row)"
  shows "\<exists>agg. aggregate_breweries df = Inr agg \<and>
           count_total agg ''brewery_count'' =
             of_nat (length (filter (\<lambda>row. cell_at (columns df) row ''id'' \<noteq> Null) (rows df)))"
proof -
  let ?idok = "\<lambda>row. cell_at (columns df) row ''id'' \<noteq> Null"
  let ?ks = "remdups (map (group_key df) (rows df))"
  let ?cnt = "\<lambda>k. length (filter ?idok (filter (\<lambda>row. group_key df row = k) (rows df)))"
  let ?cols = "[''brewery_type'', ''country'', ''state'', ''brewery_count'']"
  let ?g = "\<lambda>row. case cell_at ?cols row ''brewery_count'' of
                    Num (Finite x) \<Rightarrow> x | _ \<Rightarrow> 0"
  have cell: "?g (k @ [Num (Finite n)]) = n" if "k \<in> set ?ks" for k n
  proof -
    from that obtain a b c where "k = [a, b, c]"
      by (auto simp: group_key_def)
    then show ?thesis by (simp add: cell_at_def cells_at_def)
  qed
  have "sum_list (map ?g (map (\<lambda>k. k @ [Num (Finite (of_nat (?cnt k)))]) (sort_key (map cell_key) ?ks))) =
        sum_list (map (\<lambda>k. of_nat (?cnt k)) (sort_key (map cell_key) ?ks))"
    unfolding map_map comp_def
    by (intro arg_cong[of _ _ sum_list] map_cong refl cell) simp
  also have "\<dots> = of_nat (sum_list (map ?cnt ?ks))"
    by (simp add: sum_list_sort_key sum_list_of_nat)
  also have "sum_list (map ?cnt ?ks) = length (filter ?idok (rows df))"
  proof -
    have "?cnt k = length (filter (\<lambda>row. group_key df row = k) (filter ?idok (rows df)))" for k
      by (simp add: conj_commute)
    then show ?thesis
      using sum_list_group_sizes [of ?ks "group_key df" "filter ?idok (rows df)"]
      by auto
  qed
  finally show ?thesis
    unfolding aggregate_breweries_rows [OF assms]
    by (simp add: count_total_def sum_list_sort_key)
qed


text \<open>
  With no null \<open>id\<close> besides, the output has one row per key that occurs and no
  other, each with the number of rows of that key, in ascending order of
  (\<open>country\<close>, \<open>state\<close>, \<open>brewery_type\<close>).
\<close>

lemma insort_key_map:
  "insort_key g (f x) (map f xs) = map f (insort_key (\<lambda>x. g (f x)) x xs)"
  by (induction xs) simp_all

lemma sort_key_map:
  "sort_key g (map f xs) = map f (sort_key (\<lambda>x. g (f x)) xs)"
  by (induction xs) (simp_all add: insort_key_map)

lemma aggregate_breweries_groups:
  assumes "\<not> df_empty df"
    and "\<forall>k\<in>set [''brewery_type'', ''country'', ''state'']. count_list (columns df) k = 1"
    and "has_column df ''id''"
    and "\<forall>row\<in>set (rows df). Null \<notin> set (group_key df row)"
    and "\<forall>row\<in>set (rows df). cell_at (columns df) row ''id'' \<noteq> Null"
  shows "\<exists>agg. aggregate_breweries df = Inr agg
      \<and> columns agg = [''brewery_type'', ''country'', ''state'', ''brewery_count'']
      \<and> distinct (map (take 3) (rows agg))
      \<and> set (map (take 3) (rows agg)) = group_key df ` set (rows df)
      \<and> (\<forall>row\<in>set (rows agg).
            row = take 3 row @
              [Num (Finite (of_nat (length (filter (\<lambda>r. group_key df r = take 3 row) (rows df)))))])
      \<and> sorted (map (\<lambda>row. map (\<lambda>l. cell_key (cell_at (columns agg) row l))
                               [''country'', ''state'', ''brewery_type''])
                  (rows agg))"
proof -
  let ?cols = "[''brewery_type'', ''country'', ''state'', ''brewery_count'']"
  let ?K = "\<lambda>row. map (\<lambda>l. cell_key (cell_at ?cols row l)) [''country'', ''state'', ''brewery_type'']"
  let ?mk = "\<lambda>k. k @ [Num (Finite (of_nat (length (filter (\<lambda>r. group_key df r = k) (rows df)))))]"
  let ?ks = "sort_key (\<lambda>k. ?K (?mk k))
               (sort_key (map cell_key) (remdups (map (group_key df) (rows df))))"
  have idok: "filter (\<lambda>row. cell_at (columns df) row ''id'' \<noteq> Null) xs = xs"
    if "set xs \<subseteq> set (rows df)" for xs
    using that assms(5) by (auto simp: filter_id_conv)
  have cnt: "(\<lambda>k. k @ [Num (Finite (of_nat (length
                 (filter (\<lambda>row. cell_at (columns df) row ''id'' \<noteq> Null)
                    (filter (\<lambda>row. group_key df row = k) (rows df))))))]) = ?mk"
    by (intro ext) (simp only: idok [OF filter_is_subset])
  have rows: "aggregate_breweries df = Inr \<lparr>columns = ?cols, rows = map ?mk ?ks\<rparr>"
    unfolding aggregate_breweries_rows [OF assms(1-4)] cnt sort_key_map ..
  have set_ks: "set ?ks = group_key df ` set (rows df)"
    by simp
  have len: "take 3 (?mk k) = k" if "k \<in> set ?ks" for k
    using that by (auto simp: group_key_def)
  then have take: "map (take 3) (map ?mk ?ks) = ?ks"
    unfolding map_map comp_def by (intro map_idI) simp
  have each: "\<forall>row\<in>set (map ?mk ?ks). row = ?mk (take 3 row)"
    using len by auto
  have sorted: "sorted (map ?K (map ?mk ?ks))"
    unfolding map_map comp_def by (rule sorted_sort_key)
  show ?thesis
    unfolding rows
    using take set_ks each sorted
    by (intro exI[of _ "\<lparr>columns = ?cols, rows = map ?mk ?ks\<rparr>"]) simp
qed

text \<open>
  C1. The claim: the counts of the output add up to the number of cleaned records. The
  code counts the non-null \<open>id\<close>s of each group (\<open>aggregate_breweries_sum\<close>), so
  a cleaned record whose \<open>id\<close> is null is not counted: the three records below pass
  \<open>clean_and_transform\<close> unchanged, and their counts add up to 2.
\<close>

theorem aggregate_breweries_null_id_sum:
  "clean_and_transform test_parse
     [[(''id'', Str ''1''), (''brewery_type'', Str ''micro''), (''state'', Str ''California''),
       (''country'', Str ''United States'')],
      [(''id'', Null), (''brewery_type'', Str ''micro''), (''state'', Str ''California''),
       (''country'', Str ''United States'')],
      [(''id'', Str ''3''), (''brewery_type'', Str ''nano''), (''state'', Str ''Texas''),
       (''country'', Str ''United States'')]] =
   Inr \<lparr>columns = [''id'', ''brewery_type'', ''state'', ''country''],
        rows = [[Str ''1'', Str ''micro'', Str ''California'', Str ''United States''],
                [Null, Str ''micro'', Str ''California'', Str ''United States''],
                [Str ''3'', Str ''nano'', Str ''Texas'', Str ''United States'']]\<rparr>
   \<and> aggregate_breweries
       \<lparr>columns = [''id'', ''brewery_type'', ''state'', ''country''],
        rows = [[Str ''1'', Str ''micro'', Str ''California'', Str ''United States''],
                [Null, Str ''micro'', Str ''California'', Str ''United States''],
                [Str ''3'', Str ''nano'', Str ''Texas'', Str ''United States'']]\<rparr> =
   Inr \<lparr>columns = [''brewery_type'', ''country'', ''state'', ''brewery_count''],
        rows = [[Str ''micro'', Str ''United States'', Str ''California'', Num (Finite 1)],
                [Str ''nano'', Str ''United States'', Str ''Texas'', Num (Finite 1)]]\<rparr>
   \<and> count_total
       \<lparr>columns = [''brewery_type'', ''country'', ''state'', ''brewery_count''],
        rows = [[Str ''micro'', Str ''United States'', Str ''California'', Num (Finite 1)],
                [Str ''nano'', Str ''United States'', Str ''Texas'', Num (Finite 1)]]\<rparr>
       ''brewery_count'' = 2"
  by code_simp

text \<open>
  C4. The claim: every row of the output carries the number of input records of its
  combination. For a single record whose \<open>id\<close> is null, the output has the row of
  its combination with the count 0.
\<close>

theorem aggregate_breweries_null_id_group:
  "aggregate_breweries
     \<lparr>columns = [''id'', ''brewery_type'', ''state'', ''country''],
      rows = [[Null, Str ''micro'', Str ''California'', Str ''United States'']]\<rparr> =
   Inr \<lparr>columns = [''brewery_type'', ''country'', ''state'', ''brewery_count''],
        rows = [[Str ''micro'', Str ''United States'', Str ''California'', Num (Finite 0)]]\<rparr>"
  by code_simp


section \<open>Quality check: results\<close>









end
